theory Spec2Isabelle
  imports Main
begin

section \<open>The interface representation read by the Python client backend\<close>

text \<open>
  The backend \<^verbatim>\<open>stone/backends/python_client.py\<close> reads an already built IR. The
  classes of \<^verbatim>\<open>stone.ir\<close> are told apart in the source by the predicates
  \<^verbatim>\<open>is_void_type\<close>, \<^verbatim>\<open>is_struct_type\<close>, \<^verbatim>\<open>is_union_type\<close>, \<^verbatim>\<open>is_nullable_type\<close>,
  \<^verbatim>\<open>is_list_type\<close>, \<^verbatim>\<open>is_map_type\<close> and \<^verbatim>\<open>is_tag_ref\<close>; here each class is a
  constructor. A user-defined type records the name of its namespace (the source holds
  the namespace object and only ever reads its \<^verbatim>\<open>name\<close>), its own \<^verbatim>\<open>fields\<close> and
  \<^verbatim>\<open>all_fields\<close> (inherited fields first, then its own), as \<open>dt_fields\<close> and
  \<open>dt_all_fields\<close>. Every other data type
  (\<^verbatim>\<open>String\<close>, \<^verbatim>\<open>Int32\<close>, \<^verbatim>\<open>Boolean\<close>, ...) is a \<open>Primitive\<close> with its name.
  A default value is a tag reference or a literal; the backend hands literals to
  \<^verbatim>\<open>fmt_obj\<close> without looking into them.
\<close>

datatype literal = IntLit int | StrLit string | BoolLit bool | NoneLit

datatype data_type =
    Void
  | Primitive (dt_name: string)
  | Struct (dt_name: string) (dt_namespace: string) (dt_doc: "string option")
      (dt_fields: "field list") (dt_all_fields: "field list")
  | Union (dt_name: string) (dt_namespace: string) (dt_doc: "string option")
      (dt_fields: "field list") (dt_all_fields: "field list")
  | Nullable (data_type_of: data_type)
  | List (data_type_of: data_type)
  | Map (key_data_type: data_type) (value_data_type: data_type)
and field =
    Field (field_name: string) (field_data_type: data_type) (field_doc: "string option")
      (has_default: bool) (field_default: default_value)
and default_value =
    TagRef (union_data_type: data_type) (tag_name: string)
  | Lit literal

fun is_void_type :: "data_type \<Rightarrow> bool" where
  "is_void_type Void = True"
| "is_void_type t = False"

fun is_struct_type :: "data_type \<Rightarrow> bool" where
  "is_struct_type (Struct n ns d fs afs) = True"
| "is_struct_type t = False"

fun is_union_type :: "data_type \<Rightarrow> bool" where
  "is_union_type (Union n ns d fs afs) = True"
| "is_union_type t = False"

fun is_nullable_type :: "data_type \<Rightarrow> bool" where
  "is_nullable_type (Nullable t) = True"
| "is_nullable_type t = False"

fun is_user_defined_type :: "data_type \<Rightarrow> bool" where
  "is_user_defined_type (Struct n ns d fs afs) = True"
| "is_user_defined_type (Union n ns d fs afs) = True"
| "is_user_defined_type t = False"

text \<open>
  A route. \<^verbatim>\<open>attrs\<close> is a dictionary or \<^verbatim>\<open>None\<close> (the source tests
  \<^verbatim>\<open>route.attrs is not None\<close>); \<^verbatim>\<open>deprecated\<close> is \<^verbatim>\<open>None\<close> or a marker whose
  \<^verbatim>\<open>by\<close> is \<^verbatim>\<open>None\<close> or the superseding route, of which only the name is read.
\<close>

record route =
  route_name :: string
  version :: int
  arg_data_type :: data_type
  result_data_type :: data_type
  error_data_type :: data_type
  doc :: "string option"
  attrs :: "(string \<rightharpoonup> string) option"
  deprecated :: "string option option"

record namespace =
  ns_name :: string
  routes :: "route list"

text \<open>The command-line arguments the modelled functions read (\<^verbatim>\<open>self.args\<close>).\<close>

record args =
  types_package :: string
  error_class_path :: string
  auth_type :: "string option"

datatype error = AssertionError | AttributeError | RuntimeError | ValueError

section \<open>Imported helpers\<close>

text \<open>
  The naming formatters of \<^verbatim>\<open>stone.backends.helpers\<close>, \<^verbatim>\<open>python_helpers\<close> and
  \<^verbatim>\<open>python_types\<close>, and \<^verbatim>\<open>process_doc\<close> of the base class \<^verbatim>\<open>CodeBackend\<close>, are
  imported by the backend and not part of it. They are parameters of the model:
  every function below takes the record \<open>h\<close> of helpers. \<^verbatim>\<open>fmt_func\<close> is always
  called with a version; \<^verbatim>\<open>process_doc\<close> takes the handler and the text.
\<close>

record helpers =
  fmt_underscores :: "string \<Rightarrow> string"
  fmt_func :: "string \<Rightarrow> int \<Rightarrow> string"
  fmt_namespace :: "string \<Rightarrow> string"
  fmt_class :: "string \<Rightarrow> string"
  fmt_var :: "string \<Rightarrow> string"
  fmt_type :: "data_type \<Rightarrow> string"
  fmt_obj :: "literal \<Rightarrow> string"
  class_name_for_data_type :: "data_type \<Rightarrow> string"
  process_doc :: "(string \<Rightarrow> string \<Rightarrow> error + string) \<Rightarrow> string \<Rightarrow> error + string"
  check_route_name_conflict :: "namespace \<Rightarrow> error option"

section \<open>Python string operations used by the backend\<close>

text \<open>
  Strings are lists of characters, read as ASCII. \<^verbatim>\<open>x.split(c)\<close> with a
  one-character separator; \<^verbatim>\<open>x.strip()\<close> with Python's ASCII whitespace (code points
  9 to 13, 28 to 32); \<^verbatim>\<open>x.lower()\<close> and \<^verbatim>\<open>x.capitalize()\<close> on ASCII letters.
\<close>

fun str_split :: "char \<Rightarrow> string \<Rightarrow> string list" where
  "str_split c [] = [[]]"
| "str_split c (x # xs) =
     (if x = c then [] # str_split c xs
      else (case str_split c xs of [] \<Rightarrow> [[x]] | w # ws \<Rightarrow> (x # w) # ws))"

definition is_space :: "char \<Rightarrow> bool" where
  "is_space c \<longleftrightarrow> (let n = (of_char c :: nat) in (9 \<le> n \<and> n \<le> 13) \<or> (28 \<le> n \<and> n \<le> 32))"

definition str_strip :: "string \<Rightarrow> string" where
  "str_strip s = rev (dropWhile is_space (rev (dropWhile is_space s)))"

definition lower_char :: "char \<Rightarrow> char" where
  "lower_char c =
     (case map_of (zip ''ABCDEFGHIJKLMNOPQRSTUVWXYZ'' ''abcdefghijklmnopqrstuvwxyz'') c of
        Some l \<Rightarrow> l | None \<Rightarrow> c)"

definition upper_char :: "char \<Rightarrow> char" where
  "upper_char c =
     (case map_of (zip ''abcdefghijklmnopqrstuvwxyz'' ''ABCDEFGHIJKLMNOPQRSTUVWXYZ'') c of
        Some u \<Rightarrow> u | None \<Rightarrow> c)"

definition str_lower :: "string \<Rightarrow> string" where
  "str_lower s = map lower_char s"

fun str_capitalize :: "string \<Rightarrow> string" where
  "str_capitalize [] = []"
| "str_capitalize (c # cs) = upper_char c # str_lower cs"

text \<open>
  \<^verbatim>\<open>val.split(':', 1)\<close> and \<^verbatim>\<open>val.rsplit(' ', 1)\<close>: at most one cut, at the first
  (last) separator; a string without the separator comes back whole, as one element.
\<close>

definition str_split1 :: "char \<Rightarrow> string \<Rightarrow> string list" where
  "str_split1 c s =
     (if c \<in> set s then [takeWhile (\<lambda>x. x \<noteq> c) s, tl (dropWhile (\<lambda>x. x \<noteq> c) s)]
      else [s])"

definition str_rsplit1 :: "char \<Rightarrow> string \<Rightarrow> string list" where
  "str_rsplit1 c s =
     (if c \<in> set s
      then [rev (tl (dropWhile (\<lambda>x. x \<noteq> c) (rev s))), rev (takeWhile (\<lambda>x. x \<noteq> c) (rev s))]
      else [s])"

text \<open>
  \<^verbatim>\<open>int(s)\<close> on a string: surrounding whitespace is dropped, one sign is allowed, then
  decimal digits, with single underscores allowed between digits; anything else raises
  \<^verbatim>\<open>ValueError\<close>.
\<close>

definition is_digit :: "char \<Rightarrow> bool" where
  "is_digit c \<longleftrightarrow> (let n = (of_char c :: nat) in 48 \<le> n \<and> n \<le> 57)"

definition digit_val :: "char \<Rightarrow> nat" where
  "digit_val c = (of_char c :: nat) - 48"

fun parse_digits :: "nat \<Rightarrow> bool \<Rightarrow> string \<Rightarrow> nat option" where
  "parse_digits acc prev [] = (if prev then Some acc else None)"
| "parse_digits acc prev (c # cs) =
     (if is_digit c then parse_digits (10 * acc + digit_val c) True cs
      else if c = CHR ''_'' \<and> prev then parse_digits acc False cs
      else None)"

definition py_int :: "string \<Rightarrow> error + int" where
  "py_int s =
     (case str_strip s of
        [] \<Rightarrow> Inl ValueError
      | c # cs \<Rightarrow>
          if c = CHR ''-'' then
            (case parse_digits 0 False cs of None \<Rightarrow> Inl ValueError | Some n \<Rightarrow> Inr (- int n))
          else if c = CHR ''+'' then
            (case parse_digits 0 False cs of None \<Rightarrow> Inl ValueError | Some n \<Rightarrow> Inr (int n))
          else
            (case parse_digits 0 False (c # cs) of None \<Rightarrow> Inl ValueError | Some n \<Rightarrow> Inr (int n)))"

text \<open>Truthiness of an optional string and of an optional list.\<close>

fun truthy :: "'a list option \<Rightarrow> bool" where
  "truthy None = False"
| "truthy (Some xs) = (xs \<noteq> [])"

section \<open>Type references in documentation: \<^verbatim>\<open>_format_type_in_doc\<close>\<close>

fun format_type_in_doc :: "helpers \<Rightarrow> args \<Rightarrow> namespace \<Rightarrow> data_type \<Rightarrow> string" where
  "format_type_in_doc h a ns Void = ''None''"
| "format_type_in_doc h a ns (Struct n tns d fs afs) =
     '':class:`'' @ types_package a @ ''.'' @ ns_name ns @ ''.''
       @ fmt_type h (Struct n tns d fs afs) @ ''`''"
| "format_type_in_doc h a ns (Union n tns d fs afs) =
     '':class:`'' @ types_package a @ ''.'' @ ns_name ns @ ''.''
       @ fmt_type h (Union n tns d fs afs) @ ''`''"
| "format_type_in_doc h a ns (Nullable t) =
     ''Nullable['' @ format_type_in_doc h a ns t @ '']''"
| "format_type_in_doc h a ns (List t) =
     ''List['' @ format_type_in_doc h a ns t @ '']''"
| "format_type_in_doc h a ns (Map k v) =
     ''Map['' @ format_type_in_doc h a ns k @ '', '' @ format_type_in_doc h a ns v @ '']''"
| "format_type_in_doc h a ns (Primitive n) = fmt_type h (Primitive n)"

section \<open>Default values: \<^verbatim>\<open>_generate_python_value\<close>\<close>

text \<open>
  The namespace argument is \<^verbatim>\<open>None\<close> or a namespace, of which the name is read;
  reading \<^verbatim>\<open>None.name\<close> raises \<^verbatim>\<open>AttributeError\<close>.
\<close>

fun generate_python_value :: "helpers \<Rightarrow> string option \<Rightarrow> default_value \<Rightarrow> error + string" where
  "generate_python_value h None (TagRef u t) = Inl AttributeError"
| "generate_python_value h (Some nsn) (TagRef u t) =
     Inr (fmt_namespace h nsn @ ''.'' @ class_name_for_data_type h u @ ''.'' @ fmt_var h t)"
| "generate_python_value h ns (Lit v) = Inr (fmt_obj h v)"

section \<open>Doc references: \<^verbatim>\<open>_docf\<close>\<close>

text \<open>
  \<^verbatim>\<open>_docf\<close> reads \<^verbatim>\<open>self.cur_namespace\<close>, set by \<^verbatim>\<open>_generate_routes\<close>; it is the
  argument \<open>cur\<close> here. Unpacking \<^verbatim>\<open>val.rsplit(' ', 1)\<close> into two names raises
  \<^verbatim>\<open>ValueError\<close> when the value has no space.
\<close>

definition docf :: "helpers \<Rightarrow> args \<Rightarrow> namespace \<Rightarrow> string \<Rightarrow> string \<Rightarrow> error + string" where
  "docf h a cur tag val =
     (if tag = ''type'' then
        (let fq_val = (if CHR ''.'' \<notin> set val then ns_name cur @ ''.'' @ val else val)
         in Inr ('':class:`'' @ types_package a @ ''.'' @ fq_val @ ''`''))
      else if tag = ''route'' then
        (case (if CHR '':'' \<in> set val
               then (case str_split1 CHR '':'' val of
                       [v, ver] \<Rightarrow> (case py_int ver of Inl e \<Rightarrow> Inl e | Inr n \<Rightarrow> Inr (v, n))
                     | _ \<Rightarrow> Inl ValueError)
               else Inr (val, 1)) of
           Inl e \<Rightarrow> Inl e
         | Inr (val', version') \<Rightarrow>
             if CHR ''.'' \<in> set val'
             then Inr ('':meth:`'' @ fmt_func h val' version' @ ''`'')
             else Inr ('':meth:`'' @ ns_name cur @ ''_'' @ fmt_func h val' version' @ ''`''))
      else if tag = ''link'' then
        (case str_rsplit1 CHR '' '' val of
           [anchor, link] \<Rightarrow> Inr (''`'' @ anchor @ '' <'' @ link @ ''>`_'')
         | _ \<Rightarrow> Inl ValueError)
      else if tag = ''val'' then
        (if val = ''null'' then Inr ''None''
         else if val = ''true'' \<or> val = ''false'' then Inr (''``'' @ str_capitalize val @ ''``'')
         else Inr val)
      else if tag = ''field'' then Inr (''``'' @ val @ ''``'')
      else Inl RuntimeError)"

section \<open>Emitted output\<close>

text \<open>
  The backend writes through the emitter of its base class. The model returns the calls
  in order: \<^verbatim>\<open>emit(s)\<close> (\<^verbatim>\<open>emit()\<close> is \<open>Emit []\<close>, a blank line),
  \<^verbatim>\<open>emit_wrapped_text(text, subsequent_prefix)\<close>,
  \<^verbatim>\<open>generate_multiline_list(items, before, after, compact)\<close>, and a block under
  \<^verbatim>\<open>with self.indent()\<close>. An exception aborts the run: the result is the error.
\<close>

datatype emit_call =
    Emit string
  | EmitWrapped string string
  | MultilineList "string list" string string bool
  | Indent "emit_call list"

definition then_err :: "error + 'a \<Rightarrow> ('a \<Rightarrow> error + 'b) \<Rightarrow> error + 'b" where
  "then_err m f = (case m of Inl e \<Rightarrow> Inl e | Inr x \<Rightarrow> f x)"

section \<open>Method prototypes: \<^verbatim>\<open>_generate_route_method_decl\<close>\<close>

text \<open>
  The namespace handed to \<^verbatim>\<open>_generate_python_value\<close> for a field's default: that of the
  field's data type when it is user-defined, \<^verbatim>\<open>None\<close> otherwise.
\<close>

definition default_namespace :: "field \<Rightarrow> string option" where
  "default_namespace f =
     (if is_user_defined_type (field_data_type f)
      then Some (dt_namespace (field_data_type f)) else None)"

text \<open>The loop over \<^verbatim>\<open>arg_data_type.all_fields\<close>, appending to \<^verbatim>\<open>args\<close>.\<close>

fun decl_fields :: "helpers \<Rightarrow> string list \<Rightarrow> field list \<Rightarrow> error + string list" where
  "decl_fields h args [] = Inr args"
| "decl_fields h args (f # fs) =
     (if is_nullable_type (field_data_type f) then
        decl_fields h (args @ [field_name f @ ''=None'']) fs
      else if has_default f then
        (case generate_python_value h (default_namespace f) (field_default f) of
           Inl e \<Rightarrow> Inl e
         | Inr v \<Rightarrow> decl_fields h (args @ [field_name f @ ''='' @ v]) fs)
      else decl_fields h (args @ [field_name f]) fs)"

definition generate_route_method_decl ::
  "helpers \<Rightarrow> namespace \<Rightarrow> route \<Rightarrow> data_type \<Rightarrow> bool \<Rightarrow> string \<Rightarrow> string list option
     \<Rightarrow> error + emit_call" where
  "generate_route_method_decl h ns r arg_dt request_binary_body method_name_suffix extra_args =
     (let args0 = [''self''];
          args1 = (case extra_args of None \<Rightarrow> args0 | Some xs \<Rightarrow> args0 @ xs);
          args2 = (if request_binary_body then args1 @ [''f''] else args1)
      in then_err
           (if is_struct_type arg_dt then decl_fields h args2 (dt_all_fields arg_dt)
            else if is_union_type arg_dt then Inr (args2 @ [''arg''])
            else if \<not> is_void_type arg_dt then Inl AssertionError
            else Inr args2)
           (\<lambda>args.
              let method_name = fmt_func h (route_name r @ method_name_suffix) (version r);
                  namespace_name = fmt_underscores h (ns_name ns)
              in Inr (MultilineList args (''def '' @ namespace_name @ ''_'' @ method_name) '':'' True)))"

section \<open>Deprecation warnings: \<^verbatim>\<open>_maybe_generate_deprecation_warning\<close>\<close>

definition maybe_generate_deprecation_warning :: "route \<Rightarrow> emit_call list" where
  "maybe_generate_deprecation_warning r =
     (case deprecated r of
        None \<Rightarrow> []
      | Some by \<Rightarrow>
          (let msg0 = route_name r @ '' is deprecated.'';
               msg = (case by of None \<Rightarrow> msg0 | Some n \<Rightarrow> msg0 @ '' Use '' @ n @ ''.'')
           in [MultilineList [[CHR 0x27] @ msg @ [CHR 0x27], ''DeprecationWarning'']
                 ''warnings.warn'' [] False]))"

section \<open>Docstrings: \<^verbatim>\<open>_generate_docstring_for_func\<close>\<close>

definition triple_quote :: string where
  "triple_quote = [CHR 0x22, CHR 0x22, CHR 0x22]"

text \<open>
  \<^verbatim>\<open>fields = [] if is_void_type(arg_data_type) else arg_data_type.fields\<close>: only
  user-defined types have the attribute \<^verbatim>\<open>fields\<close> (their own fields, without the
  inherited ones).
\<close>

definition arg_fields :: "data_type \<Rightarrow> error + field list" where
  "arg_fields t =
     (if is_void_type t then Inr []
      else if is_user_defined_type t then Inr (dt_fields t)
      else Inl AttributeError)"

text \<open>The loop over \<^verbatim>\<open>extra_request_args\<close>, triples of name, type name and doc.\<close>

fun extra_request_arg_lines :: "(string \<times> string \<times> string) list \<Rightarrow> emit_call list" where
  "extra_request_arg_lines [] = []"
| "extra_request_arg_lines ((name, data_type_name, d) # xs) =
     (if data_type_name \<noteq> []
      then EmitWrapped ('':param '' @ data_type_name @ '' '' @ name @ '': '' @ d) ''    ''
      else EmitWrapped ('':param '' @ name @ '': '' @ d) ''    '')
     # extra_request_arg_lines xs"

text \<open>The body of the loop over the fields of a struct argument.\<close>

definition field_lines :: "helpers \<Rightarrow> args \<Rightarrow> namespace \<Rightarrow> namespace \<Rightarrow> field \<Rightarrow> error + emit_call list" where
  "field_lines h a cur ns f =
     (if truthy (field_doc f) then
        then_err (process_doc h (docf h a cur) (case field_doc f of Some d \<Rightarrow> d | None \<Rightarrow> []))
          (\<lambda>pd.
             let field_doc' =
                   (if is_user_defined_type (field_data_type f)
                    then '':param '' @ field_name f @ '': '' @ pd
                    else '':param '' @ format_type_in_doc h a ns (field_data_type f) @ '' ''
                           @ field_name f @ '': '' @ pd)
             in Inr (EmitWrapped field_doc' ''    ''
                     # (if is_user_defined_type (field_data_type f)
                        then [Emit ('':type '' @ field_name f @ '': ''
                                      @ format_type_in_doc h a ns (field_data_type f))]
                        else [])))
      else
        Inr [EmitWrapped ('':type '' @ field_name f @ '': ''
                            @ format_type_in_doc h a ns (field_data_type f)) []])"

fun struct_field_lines ::
  "helpers \<Rightarrow> args \<Rightarrow> namespace \<Rightarrow> namespace \<Rightarrow> field list \<Rightarrow> error + emit_call list" where
  "struct_field_lines h a cur ns [] = Inr []"
| "struct_field_lines h a cur ns (f # fs) =
     then_err (field_lines h a cur ns f)
       (\<lambda>ls. then_err (struct_field_lines h a cur ns fs) (\<lambda>rest. Inr (ls @ rest)))"

definition union_arg_lines ::
  "helpers \<Rightarrow> args \<Rightarrow> namespace \<Rightarrow> namespace \<Rightarrow> data_type \<Rightarrow> error + emit_call list" where
  "union_arg_lines h a cur ns arg_dt =
     then_err
       (if truthy (dt_doc arg_dt)
        then then_err (process_doc h (docf h a cur) (case dt_doc arg_dt of Some d \<Rightarrow> d | None \<Rightarrow> []))
               (\<lambda>pd. Inr [EmitWrapped ('':param arg: '' @ pd) ''    ''])
        else Inr [])
       (\<lambda>p. Inr (p @ [Emit ('':type arg: '' @ format_type_in_doc h a ns arg_dt)]))"

text \<open>
  The block \<^verbatim>\<open>if extra_request_args or fields:\<close>, with its blank line after an
  overview, and the later block \<^verbatim>\<open>if overview and not (extra_request_args or fields):\<close>.
\<close>

definition param_section ::
  "helpers \<Rightarrow> args \<Rightarrow> namespace \<Rightarrow> namespace \<Rightarrow> data_type \<Rightarrow> field list \<Rightarrow> string option
     \<Rightarrow> (string \<times> string \<times> string) list option \<Rightarrow> error + emit_call list" where
  "param_section h a cur ns arg_dt fs overview extra_request_args =
     (if truthy extra_request_args \<or> fs \<noteq> [] then
        then_err
          (if is_struct_type arg_dt then struct_field_lines h a cur ns fs
           else if is_union_type arg_dt then union_arg_lines h a cur ns arg_dt
           else Inr [])
          (\<lambda>tls. Inr ((if truthy overview then [Emit []] else [])
                       @ (case extra_request_args of None \<Rightarrow> [] | Some xs \<Rightarrow> extra_request_arg_lines xs)
                       @ tls))
      else Inr [])"

definition no_param_blank ::
  "field list \<Rightarrow> string option \<Rightarrow> (string \<times> string \<times> string) list option \<Rightarrow> emit_call list" where
  "no_param_blank fs overview extra_request_args =
     (if truthy overview \<and> \<not> (truthy extra_request_args \<or> fs \<noteq> []) then [Emit []] else [])"

definition rtype_section ::
  "helpers \<Rightarrow> args \<Rightarrow> namespace \<Rightarrow> data_type \<Rightarrow> string option \<Rightarrow> emit_call list" where
  "rtype_section h a ns result_dt extra_return_arg =
     (if truthy extra_return_arg then
        [MultilineList
           [if is_void_type result_dt then ''None'' else format_type_in_doc h a ns result_dt,
            case extra_return_arg of Some l \<Rightarrow> l | None \<Rightarrow> []]
           '':rtype: '' [] True]
      else if is_void_type result_dt then [Emit '':rtype: None'']
      else [Emit ('':rtype: '' @ format_type_in_doc h a ns result_dt)])"

definition error_section :: "helpers \<Rightarrow> args \<Rightarrow> namespace \<Rightarrow> data_type \<Rightarrow> error + emit_call list" where
  "error_section h a ns error_dt =
     (if is_void_type error_dt then Inr []
      else if \<not> is_user_defined_type error_dt then Inl AttributeError
      else if dt_fields error_dt \<noteq> [] then
        Inr [Emit ('':raises: :class:`'' @ error_class_path a @ ''`''),
             Emit [],
             Emit (''If this raises, '' @ last (str_rsplit1 CHR ''.'' (error_class_path a))
                     @ '' will contain:''),
             Indent [Emit (format_type_in_doc h a ns error_dt)]]
      else Inr [])"

definition footer_section :: "string option \<Rightarrow> emit_call list" where
  "footer_section footer =
     (if truthy footer then [Emit [], EmitWrapped (case footer of Some t \<Rightarrow> t | None \<Rightarrow> []) []]
      else [])"

definition generate_docstring_for_func ::
  "helpers \<Rightarrow> args \<Rightarrow> namespace \<Rightarrow> namespace \<Rightarrow> data_type \<Rightarrow> data_type \<Rightarrow> data_type
     \<Rightarrow> string option \<Rightarrow> (string \<times> string \<times> string) list option \<Rightarrow> string option
     \<Rightarrow> string option \<Rightarrow> error + emit_call list" where
  "generate_docstring_for_func h a cur ns arg_dt result_dt error_dt overview extra_request_args
       extra_return_arg footer =
     then_err (arg_fields arg_dt)
       (\<lambda>fs.
          if fs = [] \<and> \<not> truthy overview then Inr []
          else
            then_err (param_section h a cur ns arg_dt fs overview extra_request_args)
              (\<lambda>ps. then_err (error_section h a ns error_dt)
                 (\<lambda>es. Inr ([Emit triple_quote]
                             @ (if truthy overview
                                then [EmitWrapped (case overview of Some t \<Rightarrow> t | None \<Rightarrow> []) []]
                                else [])
                             @ ps
                             @ no_param_blank fs overview extra_request_args
                             @ rtype_section h a ns result_dt extra_return_arg
                             @ es
                             @ footer_section footer
                             @ [Emit triple_quote]))))"

section \<open>One method per route: \<^verbatim>\<open>_generate_route_helper\<close>\<close>

definition DOCSTRING_CLOSE_RESPONSE :: string where
  "DOCSTRING_CLOSE_RESPONSE =
     ''If you do not consume the entire response body, then you must call close on the''
     @ [CHR 0x0A] @ ''response object, otherwise you will max out your available connections. We''
     @ [CHR 0x0A] @ ''recommend using the `contextlib.closing''
     @ [CHR 0x0A] @ ''<https://docs.python.org/2/library/contextlib.html#contextlib.closing>`_''
     @ [CHR 0x0A] @ ''context manager to ensure this.''"

text \<open>\<^verbatim>\<open>route.attrs.get('style') == s\<close>; reading \<^verbatim>\<open>get\<close> of \<^verbatim>\<open>None\<close> raises.\<close>

definition style_is :: "route \<Rightarrow> string \<Rightarrow> error + bool" where
  "style_is r s = (case attrs r of None \<Rightarrow> Inl AttributeError | Some m \<Rightarrow> Inr (m ''style'' = Some s))"

text \<open>The code that instantiates the request argument.\<close>

definition arg_construction :: "helpers \<Rightarrow> data_type \<Rightarrow> error + emit_call list" where
  "arg_construction h arg_dt =
     (if is_void_type arg_dt then Inr [Emit ''arg = None'']
      else if is_struct_type arg_dt then
        Inr [MultilineList (map field_name (dt_all_fields arg_dt))
               (''arg = '' @ fmt_namespace h (dt_namespace arg_dt) @ ''.'' @ fmt_class h (dt_name arg_dt))
               [] True]
      else if \<not> is_union_type arg_dt then Inl AssertionError
      else Inr [])"

definition return_lines :: "bool \<Rightarrow> data_type \<Rightarrow> emit_call list" where
  "return_lines download_to_file result_dt =
     (if download_to_file then
        [Emit ''self._save_body_to_file(download_path, r[1])'',
         if is_void_type result_dt then Emit ''return None'' else Emit ''return r[0]'']
      else
        [if is_void_type result_dt then Emit ''return None'' else Emit ''return r''])"

text \<open>
  The result is the prototype, the indented body (docstring, deprecation warning,
  argument, request, return) and the blank line that closes the method.
  \<open>cur\<close> is \<^verbatim>\<open>self.cur_namespace\<close>, read by \<^verbatim>\<open>_docf\<close>.
\<close>

definition generate_route_helper ::
  "helpers \<Rightarrow> args \<Rightarrow> namespace \<Rightarrow> namespace \<Rightarrow> route \<Rightarrow> bool \<Rightarrow> error + emit_call list" where
  "generate_route_helper h a cur ns r download_to_file =
     then_err (style_is r ''upload'') (\<lambda>request_binary_body.
     then_err (style_is r ''download'') (\<lambda>response_binary_body.
     then_err
       (if download_to_file then
          (if \<not> response_binary_body then Inl AssertionError
           else generate_route_method_decl h ns r (arg_data_type r) request_binary_body
                  ''_to_file'' (Some [''download_path'']))
        else generate_route_method_decl h ns r (arg_data_type r) request_binary_body [] None)
     (\<lambda>decl.
        let extra_request_args =
              (if request_binary_body then Some [(''f'', ''bytes'', ''Contents to upload.'')]
               else if download_to_file
               then Some [(''download_path'', ''str'', ''Path on local machine to save file.'')]
               else None);
            extra_return_arg =
              (if response_binary_body \<and> \<not> download_to_file
               then Some '':class:`requests.models.Response`'' else None);
            footer =
              (if response_binary_body \<and> \<not> download_to_file
               then Some DOCSTRING_CLOSE_RESPONSE else None)
        in
        then_err
          (if truthy (doc r)
           then then_err (process_doc h (docf h a cur) (case doc r of Some d \<Rightarrow> d | None \<Rightarrow> []))
                  (\<lambda>pd. Inr (Some pd))
           else Inr None)
        (\<lambda>func_docstring.
        then_err
          (generate_docstring_for_func h a cur ns (arg_data_type r) (result_data_type r)
             (error_data_type r) func_docstring extra_request_args extra_return_arg footer)
        (\<lambda>docstring.
        then_err (arg_construction h (arg_data_type r))
        (\<lambda>arg_code.
           Inr [decl,
                Indent
                  (docstring
                   @ maybe_generate_deprecation_warning r
                   @ arg_code
                   @ [MultilineList
                        [fmt_namespace h (ns_name ns) @ ''.'' @ fmt_func h (route_name r) (version r),
                         [CHR 0x27] @ ns_name ns @ [CHR 0x27],
                         ''arg'',
                         if request_binary_body then ''f'' else ''None'']
                        ''r = self.request'' [] False]
                   @ return_lines download_to_file (result_data_type r)),
                Emit []]))))))"

section \<open>Which methods a route gets: \<^verbatim>\<open>_generate_routes\<close>\<close>

text \<open>
  \<^verbatim>\<open>self.supported_auth_types\<close> is \<^verbatim>\<open>None\<close> unless \<^verbatim>\<open>--auth-type\<close> is given; then it
  is the list of its comma-separated entries, stripped and lower-cased.
\<close>

definition normalized_tokens :: "string \<Rightarrow> string list" where
  "normalized_tokens s = map (\<lambda>t. str_lower (str_strip t)) (str_split CHR '','' s)"

definition supported_auth_types :: "args \<Rightarrow> string list option" where
  "supported_auth_types a = map_option normalized_tokens (auth_type a)"

text \<open>
  The two statements that both branches of the loop body share: the standard method,
  and the download-to-file method when \<^verbatim>\<open>route.attrs.get('style') == 'download'\<close>.
\<close>

definition generate_route_variants ::
  "helpers \<Rightarrow> args \<Rightarrow> namespace \<Rightarrow> route \<Rightarrow> error + emit_call list" where
  "generate_route_variants h a ns r =
     then_err (generate_route_helper h a ns ns r False) (\<lambda>m1.
     then_err (style_is r ''download'') (\<lambda>download.
       if download
       then then_err (generate_route_helper h a ns ns r True) (\<lambda>m2. Inr (m1 @ m2))
       else Inr m1))"

text \<open>The loop over \<^verbatim>\<open>self.supported_auth_types\<close>, left by \<^verbatim>\<open>break\<close> at the first match.\<close>

fun auth_types_loop ::
  "helpers \<Rightarrow> args \<Rightarrow> namespace \<Rightarrow> route \<Rightarrow> string list \<Rightarrow> string list \<Rightarrow> error + emit_call list" where
  "auth_types_loop h a ns r [] route_auth_modes = Inr []"
| "auth_types_loop h a ns r (base_auth_type # rest) route_auth_modes =
     (if base_auth_type \<in> set route_auth_modes then generate_route_variants h a ns r
      else auth_types_loop h a ns r rest route_auth_modes)"

text \<open>The body of the loop over \<^verbatim>\<open>namespace.routes\<close>.\<close>

definition generate_route :: "helpers \<Rightarrow> args \<Rightarrow> namespace \<Rightarrow> route \<Rightarrow> error + emit_call list" where
  "generate_route h a ns r =
     (case supported_auth_types a of
        None \<Rightarrow> generate_route_variants h a ns r
      | Some supported \<Rightarrow>
          (let route_auth_attr = (case attrs r of None \<Rightarrow> None | Some m \<Rightarrow> m ''auth'')
           in case route_auth_attr of
                None \<Rightarrow> Inr []
              | Some s \<Rightarrow> auth_types_loop h a ns r supported (normalized_tokens s)))"

fun routes_loop :: "helpers \<Rightarrow> args \<Rightarrow> namespace \<Rightarrow> route list \<Rightarrow> error + emit_call list" where
  "routes_loop h a ns [] = Inr []"
| "routes_loop h a ns (r # rs) =
     then_err (generate_route h a ns r)
       (\<lambda>out. then_err (routes_loop h a ns rs) (\<lambda>rest. Inr (out @ rest)))"

definition generate_routes :: "helpers \<Rightarrow> args \<Rightarrow> namespace \<Rightarrow> error + emit_call list" where
  "generate_routes h a ns =
     (case check_route_name_conflict h ns of
        Some e \<Rightarrow> Inl e
      | None \<Rightarrow> routes_loop h a ns (routes ns))"

text \<open>The prototypes among the emitted calls: one per generated method.\<close>

fun method_decls :: "emit_call list \<Rightarrow> (string \<times> string list) list" where
  "method_decls [] = []"
| "method_decls (MultilineList items before after compact # cs) = (before, items) # method_decls cs"
| "method_decls (c # cs) = method_decls cs"

section \<open>An instance of the helpers\<close>

text \<open>
  To evaluate the model on concrete routes the helper parameters need values. This
  instance formats names by lower-casing them, appends \<open>_v\<close> and the version to a
  function name when the version is not 1 (the Python helper \<^verbatim>\<open>fmt_func\<close> does this
  after \<^verbatim>\<open>fmt_underscores\<close>), leaves class names as they are, and leaves prose without
  reference markers unchanged.
\<close>

definition digit_char :: "nat \<Rightarrow> char" where
  "digit_char d = ''0123456789'' ! d"

function str_of_nat :: "nat \<Rightarrow> string" where
  "str_of_nat n =
     (if n < 10 then [digit_char n]
      else str_of_nat (n div 10) @ [digit_char (n mod 10)])"
  by pat_completeness auto
termination
  by (relation "measure (\<lambda>n. n)") auto

declare str_of_nat.simps [simp del]

definition str_of_int :: "int \<Rightarrow> string" where
  "str_of_int i = (if i < 0 then CHR ''-'' # str_of_nat (nat (- i)) else str_of_nat (nat i))"

fun sample_fmt_type :: "data_type \<Rightarrow> string" where
  "sample_fmt_type (Primitive n) = str_lower n"
| "sample_fmt_type (Struct n tns d fs afs) = n"
| "sample_fmt_type (Union n tns d fs afs) = n"
| "sample_fmt_type t = []"

fun sample_fmt_obj :: "literal \<Rightarrow> string" where
  "sample_fmt_obj (IntLit i) = str_of_int i"
| "sample_fmt_obj (StrLit s) = [CHR 0x27] @ s @ [CHR 0x27]"
| "sample_fmt_obj (BoolLit b) = (if b then ''True'' else ''False'')"
| "sample_fmt_obj NoneLit = ''None''"

definition sample_helpers :: helpers where
  "sample_helpers =
     \<lparr> fmt_underscores = str_lower,
       fmt_func = (\<lambda>n v. if v \<noteq> 1 then str_lower n @ ''_v'' @ str_of_int v else str_lower n),
       fmt_namespace = str_lower,
       fmt_class = (\<lambda>n. n),
       fmt_var = str_lower,
       fmt_type = sample_fmt_type,
       fmt_obj = sample_fmt_obj,
       class_name_for_data_type = dt_name,
       process_doc = (\<lambda>handler text. Inr text),
       check_route_name_conflict = (\<lambda>ns. None) \<rparr>"

definition sample_args :: args where
  "sample_args = \<lparr> types_package = ''pkg'', error_class_path = ''.exceptions.ApiError'',
                    auth_type = None \<rparr>"

section \<open>Notions used to state the properties\<close>

subsection \<open>Nesting of types and of brackets\<close>

text \<open>
  The structural depth of a data type counts the wrappers \<open>Nullable\<close>, \<open>List\<close> and
  \<open>Map\<close> on its deepest path; the types under the wrappers are its leaves. The
  bracket depth of a string is the greatest number of square brackets open at once,
  reading from the left.
\<close>

fun wrapper_depth :: "data_type \<Rightarrow> nat" where
  "wrapper_depth (Nullable t) = Suc (wrapper_depth t)"
| "wrapper_depth (List t) = Suc (wrapper_depth t)"
| "wrapper_depth (Map k v) = Suc (max (wrapper_depth k) (wrapper_depth v))"
| "wrapper_depth t = 0"

fun leaf_types :: "data_type \<Rightarrow> data_type list" where
  "leaf_types (Nullable t) = leaf_types t"
| "leaf_types (List t) = leaf_types t"
| "leaf_types (Map k v) = leaf_types k @ leaf_types v"
| "leaf_types t = [t]"

definition bracket_free :: "string \<Rightarrow> bool" where
  "bracket_free s \<longleftrightarrow> CHR ''['' \<notin> set s \<and> CHR '']'' \<notin> set s"

fun nesting :: "nat \<Rightarrow> nat \<Rightarrow> string \<Rightarrow> nat" where
  "nesting cur mx [] = mx"
| "nesting cur mx (c # cs) =
     (if c = CHR ''['' then nesting (Suc cur) (max mx (Suc cur)) cs
      else if c = CHR '']'' then nesting (cur - 1) mx cs
      else nesting cur mx cs)"

definition bracket_depth :: "string \<Rightarrow> nat" where
  "bracket_depth s = nesting 0 0 s"

definition files_ns :: namespace where
  "files_ns = \<lparr> ns_name = ''files'', routes = [] \<rparr>"

subsection \<open>Parameters of a method prototype\<close>

text \<open>
  What the specification asks of the parameter \<open>p\<close> generated for a field \<open>f\<close>: a
  nullable field defaults to \<open>None\<close>, whether or not it has a default of its own;
  otherwise a field with a default defaults to the rendered default value; otherwise
  the parameter is the bare name. A default renders when \<^verbatim>\<open>_generate_python_value\<close>
  returns for it.
\<close>

definition parameter_of :: "helpers \<Rightarrow> field \<Rightarrow> string \<Rightarrow> bool" where
  "parameter_of h f p \<longleftrightarrow>
     (is_nullable_type (field_data_type f) \<longrightarrow> p = field_name f @ ''=None'')
   \<and> (\<not> is_nullable_type (field_data_type f) \<and> has_default f \<longrightarrow>
        (\<exists>v. generate_python_value h (default_namespace f) (field_default f) = Inr v
             \<and> p = field_name f @ ''='' @ v))
   \<and> (\<not> is_nullable_type (field_data_type f) \<and> \<not> has_default f \<longrightarrow> p = field_name f)"

definition default_renders :: "helpers \<Rightarrow> field \<Rightarrow> bool" where
  "default_renders h f \<longleftrightarrow>
     (\<not> is_nullable_type (field_data_type f) \<and> has_default f \<longrightarrow>
        (\<exists>v. generate_python_value h (default_namespace f) (field_default f) = Inr v))"



subsection \<open>Blank lines of a docstring\<close>

text \<open>The number of blank lines (\<^verbatim>\<open>self.emit()\<close>) among emitted calls.\<close>

definition blank_lines :: "emit_call list \<Rightarrow> nat" where
  "blank_lines cs = length (filter (\<lambda>c. c = Emit []) cs)"

text \<open>An upload route without argument and without doc text.\<close>

definition upload_route :: route where
  "upload_route =
     \<lparr> route_name = ''upload'', version = 1, arg_data_type = Void,
       result_data_type = Void, error_data_type = Void, doc = None,
       attrs = Some [''style'' \<mapsto> ''upload''], deprecated = None \<rparr>"

subsection \<open>Routes the generator accepts\<close>



text \<open>A route whose struct argument has an inherited field only.\<close>

definition inherited_route :: route where
  "inherited_route =
     \<lparr> route_name = ''get_metadata'', version = 1,
       arg_data_type = Struct ''GetMetadataArg'' ''files'' None []
                         [Field ''path'' (Primitive ''String'') None False (Lit NoneLit)],
       result_data_type = Void, error_data_type = Void, doc = None,
       attrs = Some Map.empty, deprecated = None \<rparr>"

subsection \<open>Parameters and sample routes for the generated methods\<close>




text \<open>A namespace whose name has a capital letter, and a route of version 2.\<close>

definition capital_ns :: namespace where
  "capital_ns = \<lparr> ns_name = ''Files'', routes = [] \<rparr>"

definition versioned_route :: route where
  "versioned_route =
     \<lparr> route_name = ''get_metadata'', version = 2, arg_data_type = Void,
       result_data_type = Void, error_data_type = Void, doc = None,
       attrs = Some Map.empty, deprecated = None \<rparr>"

section \<open>Properties of the type formatter\<close>

lemma nesting_bracket_free:
  "bracket_free s \<Longrightarrow> nesting cur mx (s @ rest) = nesting cur mx rest"
  by (induction s) (auto simp: bracket_free_def)

lemma bracket_free_append [simp]:
  "bracket_free (s @ t) \<longleftrightarrow> bracket_free s \<and> bracket_free t"
  by (auto simp: bracket_free_def)

text \<open>
  Reading the rendering of \<open>t\<close> in front of any rest leaves the number of open
  brackets as it was and raises the maximum to the depth of \<open>t\<close> above it.
\<close>

lemma nesting_format:
  assumes "\<forall>l \<in> set (leaf_types t). bracket_free (fmt_type h l)"
      and "bracket_free (types_package a)" and "bracket_free (ns_name ns)" and "cur \<le> mx"
  shows "nesting cur mx (format_type_in_doc h a ns t @ rest)
           = nesting cur (max mx (cur + wrapper_depth t)) rest"
  using assms
proof (induction h a ns t arbitrary: cur mx rest rule: format_type_in_doc.induct)
  case (1 h a ns)
  then show ?case by (simp add: max_def)
next
  case (2 h a ns n tns d fs afs)
  have "bracket_free (format_type_in_doc h a ns (Struct n tns d fs afs))"
    using 2 by (simp add: bracket_free_def)
  then show ?case
    by (simp only: nesting_bracket_free) (use \<open>cur \<le> mx\<close> in \<open>simp add: max_def\<close>)
next
  case (3 h a ns n tns d fs afs)
  have "bracket_free (format_type_in_doc h a ns (Union n tns d fs afs))"
    using 3 by (simp add: bracket_free_def)
  then show ?case
    by (simp only: nesting_bracket_free) (use \<open>cur \<le> mx\<close> in \<open>simp add: max_def\<close>)
next
  case (4 h a ns t)
  then show ?case by (simp add: max_def)
next
  case (5 h a ns t)
  then show ?case by (simp add: max_def)
next
  case (6 h a ns k v)
  then show ?case by (simp add: max_def)
next
  case (7 h a ns n)
  then have "bracket_free (format_type_in_doc h a ns (Primitive n))" by simp
  then show ?case
    by (simp only: nesting_bracket_free) (use \<open>cur \<le> mx\<close> in \<open>simp add: max_def\<close>)
qed

text \<open>
  Claim C7. \<open>format_type_in_doc\<close> is a total function on data types (its recursion is
  on the strictly smaller wrapped types). \<open>Void\<close> renders as \<open>None\<close>; \<open>Nullable\<close>,
  \<open>List\<close> and \<open>Map\<close> render as the wrapper's name with the renderings of the wrapped
  types in square brackets; and when the strings that come from outside the formatter
  (the names \<^verbatim>\<open>fmt_type\<close> gives to the leaves, the types package and the namespace
  name) hold no square bracket, the bracket depth of the rendering of \<open>t\<close> is the
  structural depth of \<open>t\<close>.
\<close>

theorem format_type_in_doc_nesting:
  assumes "\<forall>l \<in> set (leaf_types t). bracket_free (fmt_type h l)"
      and "bracket_free (types_package a)" and "bracket_free (ns_name ns)"
  shows "format_type_in_doc h a ns Void = ''None''
       \<and> format_type_in_doc h a ns (Nullable inner)
           = ''Nullable['' @ format_type_in_doc h a ns inner @ '']''
       \<and> format_type_in_doc h a ns (List elem)
           = ''List['' @ format_type_in_doc h a ns elem @ '']''
       \<and> format_type_in_doc h a ns (Map k v)
           = ''Map['' @ format_type_in_doc h a ns k @ '', '' @ format_type_in_doc h a ns v @ '']''
       \<and> bracket_depth (format_type_in_doc h a ns t) = wrapper_depth t"
proof -
  have "nesting 0 0 (format_type_in_doc h a ns t @ []) = nesting 0 (max 0 (0 + wrapper_depth t)) []"
    using assms by (intro nesting_format) auto
  then have "bracket_depth (format_type_in_doc h a ns t) = wrapper_depth t"
    by (simp add: bracket_depth_def)
  then show ?thesis by simp
qed

theorem format_type_in_doc_nesting_witness:
  "format_type_in_doc sample_helpers sample_args files_ns
     (Map (Primitive ''String'') (List (Nullable (Struct ''Foo'' ''files'' None [] []))))
     = ''Map[string, List[Nullable[:class:`pkg.files.Foo`]]]''
   \<and> bracket_depth (format_type_in_doc sample_helpers sample_args files_ns
        (Map (Primitive ''String'') (List (Nullable (Struct ''Foo'' ''files'' None [] []))))) = 3"
  using format_type_in_doc_nesting [of
      "Map (Primitive ''String'') (List (Nullable (Struct ''Foo'' ''files'' None [] [])))"
      sample_helpers sample_args files_ns]
  by (simp add: sample_helpers_def sample_args_def files_ns_def bracket_free_def
        bracket_depth_def str_lower_def lower_char_def)

section \<open>Properties of the doc-reference resolver\<close>

lemma str_rsplit1_last:
  assumes "c \<notin> set t"
  shows "str_rsplit1 c (s @ c # t) = [s, t]"
proof -
  have a: "takeWhile (\<lambda>x. x \<noteq> c) (rev t @ c # rev s) = rev t"
    using assms by (subst takeWhile_append2) auto
  have b: "dropWhile (\<lambda>x. x \<noteq> c) (rev t @ c # rev s) = c # rev s"
    using assms by (subst dropWhile_append2) auto
  show ?thesis by (simp add: str_rsplit1_def a b)
qed

lemma str_rsplit1_none: "c \<notin> set s \<Longrightarrow> str_rsplit1 c s = [s]"
  by (simp add: str_rsplit1_def)

text \<open>
  Claim C8. The resolver turns the value \<open>null\<close> of a \<open>val\<close> tag into \<open>None\<close>,
  \<open>true\<close> and \<open>false\<close> into the capitalised words between double backquotes, and
  leaves any other value as it is; it cuts the value of a \<open>link\<close> tag at its last
  space (the URL after it holds no space) into the anchor and the URL of a hyperlink;
  and a \<open>type\<close> tag whose value has no dot resolves, in the current namespace, to
  the same class reference as the value prefixed with that namespace's name and a dot.
\<close>

theorem docf_resolution:
  assumes "CHR ''.'' \<notin> set foo" and "CHR '' '' \<notin> set url"
      and "v \<noteq> ''null''" and "v \<noteq> ''true''" and "v \<noteq> ''false''"
  shows "docf h a cur ''val'' ''null'' = Inr ''None''
       \<and> docf h a cur ''val'' ''true'' = Inr ''``True``''
       \<and> docf h a cur ''val'' ''false'' = Inr ''``False``''
       \<and> docf h a cur ''val'' v = Inr v
       \<and> docf h a cur ''link'' (anchor @ '' '' @ url) = Inr (''`'' @ anchor @ '' <'' @ url @ ''>`_'')
       \<and> docf h a cur ''type'' foo = docf h a cur ''type'' (ns_name cur @ ''.'' @ foo)
       \<and> docf h a cur ''type'' foo
           = Inr ('':class:`'' @ types_package a @ ''.'' @ ns_name cur @ ''.'' @ foo @ ''`'')"
proof -
  have l: "str_rsplit1 CHR '' '' (anchor @ '' '' @ url) = [anchor, url]"
    using str_rsplit1_last [OF assms(2), of anchor] by simp
  have 1: "docf h a cur ''val'' ''null'' = Inr ''None''"
    by (simp add: docf_def)
  have 2: "docf h a cur ''val'' ''true'' = Inr ''``True``''"
    by (simp add: docf_def upper_char_def str_lower_def lower_char_def)
  have 3: "docf h a cur ''val'' ''false'' = Inr ''``False``''"
    by (simp add: docf_def upper_char_def str_lower_def lower_char_def)
  have 4: "docf h a cur ''val'' v = Inr v"
    using assms(3-5) by (simp add: docf_def)
  have 5: "docf h a cur ''link'' (anchor @ '' '' @ url) = Inr (''`'' @ anchor @ '' <'' @ url @ ''>`_'')"
    using l by (simp add: docf_def)
  have 6: "docf h a cur ''type'' foo
           = Inr ('':class:`'' @ types_package a @ ''.'' @ ns_name cur @ ''.'' @ foo @ ''`'')"
    using assms(1) by (simp add: docf_def)
  have 7: "docf h a cur ''type'' (ns_name cur @ ''.'' @ foo)
           = Inr ('':class:`'' @ types_package a @ ''.'' @ ns_name cur @ ''.'' @ foo @ ''`'')"
    by (simp add: docf_def)
  show ?thesis using 1 2 3 4 5 6 7 by simp
qed

theorem docf_resolution_witness:
  "docf sample_helpers sample_args files_ns ''val'' ''null'' = Inr ''None''
   \<and> docf sample_helpers sample_args files_ns ''val'' ''true'' = Inr ''``True``''
   \<and> docf sample_helpers sample_args files_ns ''val'' ''maybe'' = Inr ''maybe''
   \<and> docf sample_helpers sample_args files_ns ''link'' ''The Docs http://example.com''
        = Inr ''`The Docs <http://example.com>`_''
   \<and> docf sample_helpers sample_args files_ns ''type'' ''Foo''
        = docf sample_helpers sample_args files_ns ''type'' ''files.Foo''
   \<and> docf sample_helpers sample_args files_ns ''type'' ''Foo'' = Inr '':class:`pkg.files.Foo`''"
  using docf_resolution [of "''Foo''" "''http://example.com''" "''maybe''"
          sample_helpers sample_args files_ns "''The Docs''"]
  by (simp add: files_ns_def sample_args_def docf_def)

section \<open>Properties of the method prototype\<close>

lemma decl_fields_shape:
  "decl_fields h args fs = Inr res \<Longrightarrow>
     \<exists>ps. res = args @ ps \<and> list_all2 (parameter_of h) fs ps"
proof (induction fs arbitrary: args)
  case Nil
  then show ?case by simp
next
  case (Cons f fs)
  show ?case
  proof (cases "is_nullable_type (field_data_type f)")
    case True
    with Cons.prems have "decl_fields h (args @ [field_name f @ ''=None'']) fs = Inr res" by simp
    from Cons.IH [OF this] obtain ps where
      ps: "res = (args @ [field_name f @ ''=None'']) @ ps" "list_all2 (parameter_of h) fs ps" by blast
    have "parameter_of h f (field_name f @ ''=None'')" using True by (simp add: parameter_of_def)
    with ps have "res = args @ ((field_name f @ ''=None'') # ps)
        \<and> list_all2 (parameter_of h) (f # fs) ((field_name f @ ''=None'') # ps)" by simp
    then show ?thesis by blast
  next
    case nn: False
    show ?thesis
    proof (cases "has_default f")
      case True
      with nn Cons.prems obtain v where
        v: "generate_python_value h (default_namespace f) (field_default f) = Inr v"
        and r: "decl_fields h (args @ [field_name f @ ''='' @ v]) fs = Inr res"
        by (auto split: sum.splits)
      from Cons.IH [OF r] obtain ps where
        ps: "res = (args @ [field_name f @ ''='' @ v]) @ ps" "list_all2 (parameter_of h) fs ps" by blast
      have "parameter_of h f (field_name f @ ''='' @ v)" using nn True v by (simp add: parameter_of_def)
      with ps have "res = args @ ((field_name f @ ''='' @ v) # ps)
        \<and> list_all2 (parameter_of h) (f # fs) ((field_name f @ ''='' @ v) # ps)" by simp
      then show ?thesis by blast
    next
      case False
      with nn Cons.prems have "decl_fields h (args @ [field_name f]) fs = Inr res" by simp
      from Cons.IH [OF this] obtain ps where
        ps: "res = (args @ [field_name f]) @ ps" "list_all2 (parameter_of h) fs ps" by blast
      have "parameter_of h f (field_name f)" using nn False by (simp add: parameter_of_def)
      with ps have "res = args @ (field_name f # ps)
        \<and> list_all2 (parameter_of h) (f # fs) (field_name f # ps)" by simp
      then show ?thesis by blast
    qed
  qed
qed


lemma decl_fields_fails:
  "decl_fields h args fs = Inr res \<Longrightarrow> f \<in> set fs \<Longrightarrow> default_renders h f"
proof (induction fs arbitrary: args)
  case Nil
  then show ?case by simp
next
  case (Cons g fs)
  then show ?case by (auto simp: default_renders_def split: if_splits sum.splits)
qed





section \<open>Properties of the default-value renderer\<close>

text \<open>
  Claim C6, as amended. For a default value that is a tag reference the renderer gives
  three dotted components: the formatted name of the namespace it was handed, the class
  name of the tag reference's union type, and the formatted tag name. Handed no
  namespace it fails. The signature builder hands it the namespace of the field's own
  data type when that is user-defined, and none otherwise; so the namespace component
  is that of the field's type, and the union recorded in the tag reference is read
  only for the class name.
\<close>

theorem generate_python_value_tag_ref:
  "generate_python_value h (Some nsn) (TagRef u t)
     = Inr (fmt_namespace h nsn @ ''.'' @ class_name_for_data_type h u @ ''.'' @ fmt_var h t)
   \<and> generate_python_value h None (TagRef u t) = Inl AttributeError
   \<and> decl_fields h args [Field fname (Union n tns d fs afs) fdoc True (TagRef u t)]
     = Inr (args @ [fname @ ''='' @ fmt_namespace h tns @ ''.''
                      @ class_name_for_data_type h u @ ''.'' @ fmt_var h t])
   \<and> decl_fields h args [Field fname (Primitive n) fdoc True (TagRef u t)] = Inl AttributeError"
  by (simp add: default_namespace_def)

text \<open>
  The claim as stated fails: handed the namespace \<open>alpha\<close>, a reference to a tag of a
  union recorded in namespace \<open>beta\<close> is rendered under \<open>alpha\<close>.
\<close>

theorem generate_python_value_tag_ref_counterexample:
  "generate_python_value sample_helpers (Some ''alpha'')
       (TagRef (Union ''Color'' ''beta'' None [] []) ''red'') = Inr ''alpha.Color.red''
   \<and> generate_python_value sample_helpers (Some ''alpha'')
       (TagRef (Union ''Color'' ''beta'' None [] []) ''red'')
     \<noteq> Inr (fmt_namespace sample_helpers (dt_namespace (Union ''Color'' ''beta'' None [] []))
              @ ''.'' @ class_name_for_data_type sample_helpers (Union ''Color'' ''beta'' None [] [])
              @ ''.'' @ fmt_var sample_helpers ''red'')"
  by (simp add: sample_helpers_def str_lower_def lower_char_def)

section \<open>Properties of the docstring\<close>

lemma blank_lines_append [simp]: "blank_lines (xs @ ys) = blank_lines xs + blank_lines ys"
  by (simp add: blank_lines_def)

lemma blank_lines_Nil [simp]: "blank_lines [] = 0"
  by (simp add: blank_lines_def)

lemma blank_lines_Cons [simp]:
  "blank_lines (c # cs) = (if c = Emit [] then Suc (blank_lines cs) else blank_lines cs)"
  by (simp add: blank_lines_def)

lemma extra_request_arg_lines_no_blank [simp]: "blank_lines (extra_request_arg_lines xs) = 0"
  by (induction xs rule: extra_request_arg_lines.induct) simp_all

lemma extra_request_arg_lines_Nil [simp]: "extra_request_arg_lines xs = [] \<longleftrightarrow> xs = []"
  by (cases xs rule: extra_request_arg_lines.cases) simp_all

lemma field_lines_no_blank:
  "field_lines h a cur ns f = Inr ls \<Longrightarrow> blank_lines ls = 0 \<and> ls \<noteq> []"
  by (auto simp: field_lines_def then_err_def Let_def split: if_splits sum.splits)

lemma struct_field_lines_no_blank:
  "struct_field_lines h a cur ns fs = Inr ls \<Longrightarrow> blank_lines ls = 0 \<and> (ls = [] \<longleftrightarrow> fs = [])"
proof (induction fs arbitrary: ls)
  case Nil
  then show ?case by simp
next
  case (Cons f fs)
  from Cons.prems obtain l1 l2 where
    l: "field_lines h a cur ns f = Inr l1" "struct_field_lines h a cur ns fs = Inr l2" "ls = l1 @ l2"
    by (auto simp: then_err_def split: sum.splits)
  from field_lines_no_blank [OF l(1)] Cons.IH [OF l(2)] l(3) show ?case by simp
qed

lemma union_arg_lines_no_blank:
  "union_arg_lines h a cur ns t = Inr ls \<Longrightarrow> blank_lines ls = 0 \<and> ls \<noteq> []"
  by (auto simp: union_arg_lines_def then_err_def split: if_splits sum.splits)

lemma arg_fields_nonempty:
  "arg_fields t = Inr fs \<Longrightarrow> fs \<noteq> [] \<Longrightarrow> is_struct_type t \<or> is_union_type t"
  by (cases t) (auto simp: arg_fields_def)

text \<open>The shape of the documentation of the parameters, when it is produced.\<close>

lemma param_section_shape:
  assumes "arg_fields t = Inr fs"
      and "param_section h a cur ns t fs overview extra = Inr ps"
  shows "if truthy extra \<or> fs \<noteq> []
         then \<exists>ls. ls \<noteq> [] \<and> blank_lines ls = 0
                \<and> ps = (if truthy overview then [Emit []] else []) @ ls
         else ps = []"
proof (cases "truthy extra \<or> fs \<noteq> []")
  case False
  with assms(2) show ?thesis by (simp add: param_section_def)
next
  case True
  let ?ex = "case extra of None \<Rightarrow> [] | Some xs \<Rightarrow> extra_request_arg_lines xs"
  have ex0: "blank_lines ?ex = 0" by (simp split: option.splits)
  from True assms(2) obtain tls where
    tls: "(if is_struct_type t then struct_field_lines h a cur ns fs
           else if is_union_type t then union_arg_lines h a cur ns t
           else Inr []) = Inr tls"
    and ps: "ps = (if truthy overview then [Emit []] else []) @ ?ex @ tls"
    by (auto simp: param_section_def then_err_def split: sum.splits if_splits)
  have t0: "blank_lines tls = 0"
    using tls struct_field_lines_no_blank union_arg_lines_no_blank
    by (fastforce split: if_splits)
  have ne: "?ex @ tls \<noteq> []"
  proof (cases "truthy extra")
    case True
    then show ?thesis by (cases extra) auto
  next
    case False
    with True have fs: "fs \<noteq> []" by simp
    from arg_fields_nonempty [OF assms(1) fs] tls fs
      struct_field_lines_no_blank union_arg_lines_no_blank
    have "tls \<noteq> []" by (fastforce split: if_splits)
    then show ?thesis by simp
  qed
  from ex0 t0 have "blank_lines (?ex @ tls) = 0" by simp
  with ne ps True show ?thesis by auto
qed


lemma docstring_absent_iff:
  "generate_docstring_for_func h a cur ns t res err overview extra ert footer = Inr []
     \<longleftrightarrow> arg_fields t = Inr [] \<and> \<not> truthy overview"
  by (auto simp: generate_docstring_for_func_def then_err_def split: sum.splits)

lemma docstring_shape:
  assumes "generate_docstring_for_func h a cur ns t res err overview extra ert footer = Inr out"
      and "out \<noteq> []"
  shows "\<exists>fs ps es. arg_fields t = Inr fs
           \<and> param_section h a cur ns t fs overview extra = Inr ps
           \<and> error_section h a ns err = Inr es
           \<and> out = [Emit triple_quote]
                 @ (if truthy overview
                    then [EmitWrapped (case overview of Some t \<Rightarrow> t | None \<Rightarrow> []) []] else [])
                 @ ps @ no_param_blank fs overview extra @ rtype_section h a ns res ert
                 @ es @ footer_section footer @ [Emit triple_quote]"
  using assms
  by (auto simp: generate_docstring_for_func_def then_err_def split: sum.splits if_splits)

text \<open>
  Claim C9. When an overview is written and the docstring is produced, the output is
  the opening delimiter, the overview, the parameter section \<open>ps\<close>, the blank line of
  the later block, and the return type. Exactly one of the two blank lines is there:
  the one that opens the parameter section, if and only if there is an extra request
  argument or a field; the one of the later block, if and only if there is neither.
\<close>

theorem docstring_one_blank_separator:
  assumes "truthy overview"
      and "generate_docstring_for_func h a cur ns t res err overview extra ert footer = Inr out"
  shows "\<exists>fs ps rest. arg_fields t = Inr fs
           \<and> param_section h a cur ns t fs overview extra = Inr ps
           \<and> blank_lines ps + blank_lines (no_param_blank fs overview extra) = 1
           \<and> (blank_lines ps = 1 \<longleftrightarrow> truthy extra \<or> fs \<noteq> [])
           \<and> (blank_lines (no_param_blank fs overview extra) = 1
                \<longleftrightarrow> \<not> (truthy extra \<or> fs \<noteq> []))
           \<and> out = Emit triple_quote
                   # EmitWrapped (case overview of Some t \<Rightarrow> t | None \<Rightarrow> []) []
                   # ps @ no_param_blank fs overview extra @ rtype_section h a ns res ert @ rest"
proof -
  from assms have "out \<noteq> []" by (auto simp: docstring_absent_iff)
  from docstring_shape [OF assms(2) this] obtain fs ps es where
    fs: "arg_fields t = Inr fs"
    and ps: "param_section h a cur ns t fs overview extra = Inr ps"
    and out: "out = [Emit triple_quote]
                 @ (if truthy overview
                    then [EmitWrapped (case overview of Some t \<Rightarrow> t | None \<Rightarrow> []) []] else [])
                 @ ps @ no_param_blank fs overview extra @ rtype_section h a ns res ert
                 @ es @ footer_section footer @ [Emit triple_quote]"
    by blast
  have cnt: "blank_lines ps = (if truthy extra \<or> fs \<noteq> [] then 1 else 0)"
    using param_section_shape [OF fs ps] assms(1) by (auto split: if_splits)
  have nb: "blank_lines (no_param_blank fs overview extra)
              = (if truthy extra \<or> fs \<noteq> [] then 0 else 1)"
    using assms(1) by (simp add: no_param_blank_def)
  have o: "out = Emit triple_quote
                   # EmitWrapped (case overview of Some t \<Rightarrow> t | None \<Rightarrow> []) []
                   # ps @ no_param_blank fs overview extra @ rtype_section h a ns res ert
                   @ (es @ footer_section footer @ [Emit triple_quote])"
    using out assms(1) by simp
  show ?thesis
    using fs ps cnt nb o by (intro exI [of _ fs] exI [of _ ps] exI) (simp split: if_splits)
qed


lemma sample_docstring_overview_only:
  "generate_docstring_for_func sample_helpers sample_args files_ns files_ns Void Void Void
     (Some ''Overview.'') None None None
   = Inr [Emit triple_quote, EmitWrapped ''Overview.'' [], Emit [], Emit '':rtype: None'',
          Emit triple_quote]"
  by (simp add: generate_docstring_for_func_def then_err_def arg_fields_def param_section_def
        no_param_blank_def rtype_section_def error_section_def footer_section_def)

theorem docstring_one_blank_separator_witness:
  "generate_docstring_for_func sample_helpers sample_args files_ns files_ns Void Void Void
     (Some ''Overview.'') None None None
   = Inr [Emit triple_quote, EmitWrapped ''Overview.'' [], Emit [], Emit '':rtype: None'',
          Emit triple_quote]
   \<and> (\<exists>fs ps. arg_fields Void = Inr fs
          \<and> param_section sample_helpers sample_args files_ns files_ns Void fs
                (Some ''Overview.'') None = Inr ps
          \<and> blank_lines ps + blank_lines (no_param_blank fs (Some ''Overview.'') None) = 1)"
proof -
  have t: "truthy (Some ''Overview.'')" by simp
  from docstring_one_blank_separator [OF t sample_docstring_overview_only]
  show ?thesis using sample_docstring_overview_only by blast
qed

text \<open>
  Claim C1. The guard that skips the docstring tests the fields and the overview only.
  With no overview and a \<open>Void\<close> argument the docstring is skipped although an extra
  request argument is given: for the upload route without doc text the method takes
  \<open>f\<close> and has no docstring, so \<open>f\<close> is not documented.
\<close>

theorem docstring_skipped_despite_extra_request_args:
  "generate_docstring_for_func h a cur ns Void res err None
       (Some [(''f'', ''bytes'', ''Contents to upload.'')]) ert footer = Inr []
   \<and> generate_route_helper sample_helpers sample_args files_ns files_ns upload_route False
     = Inr [MultilineList [''self'', ''f''] ''def files_upload'' '':'' True,
            Indent [Emit ''arg = None'',
                    MultilineList [''files.upload'', [CHR 0x27] @ ''files'' @ [CHR 0x27], ''arg'', ''f'']
                      ''r = self.request'' [] False,
                    Emit ''return None''],
            Emit []]"
  by (simp add: generate_docstring_for_func_def then_err_def arg_fields_def
        generate_route_helper_def style_is_def upload_route_def generate_route_method_decl_def
        sample_helpers_def files_ns_def arg_construction_def return_lines_def
        maybe_generate_deprecation_warning_def str_lower_def lower_char_def)

section \<open>Properties of the generated method\<close>

lemma method_decl_shape:
  "generate_route_method_decl h ns r t rb sfx extra = Inr decl \<Longrightarrow>
     \<exists>args. decl = MultilineList args
               (''def '' @ fmt_underscores h (ns_name ns) @ ''_''
                  @ fmt_func h (route_name r @ sfx) (version r)) '':'' True"
  by (auto simp: generate_route_method_decl_def then_err_def Let_def split: sum.splits)

lemma route_helper_shape:
  assumes "generate_route_helper h a cur ns r dtf = Inr out"
  shows "\<exists>m decl ov extra ert footer ds ac.
           attrs r = Some m
         \<and> (dtf \<longrightarrow> m ''style'' = Some ''download'')
         \<and> generate_route_method_decl h ns r (arg_data_type r) (m ''style'' = Some ''upload'')
               (if dtf then ''_to_file'' else []) (if dtf then Some [''download_path''] else None)
             = Inr decl
         \<and> (\<not> truthy (doc r) \<longrightarrow> ov = None)
         \<and> generate_docstring_for_func h a cur ns (arg_data_type r) (result_data_type r)
               (error_data_type r) ov extra ert footer = Inr ds
         \<and> arg_construction h (arg_data_type r) = Inr ac
         \<and> out = [decl,
                   Indent (ds @ maybe_generate_deprecation_warning r @ ac
                           @ [MultilineList
                                [fmt_namespace h (ns_name ns) @ ''.''
                                   @ fmt_func h (route_name r) (version r),
                                 [CHR 0x27] @ ns_name ns @ [CHR 0x27],
                                 ''arg'',
                                 if m ''style'' = Some ''upload'' then ''f'' else ''None'']
                                ''r = self.request'' [] False]
                           @ return_lines dtf (result_data_type r)),
                   Emit []]"
proof -
  from assms obtain m where m: "attrs r = Some m"
    by (cases "attrs r") (auto simp: generate_route_helper_def style_is_def then_err_def)
  show ?thesis
    using assms m
    apply (simp add: generate_route_helper_def style_is_def then_err_def Let_def
             split: sum.splits if_splits)
    apply blast+
    done
qed


lemma method_decl_struct_params:
  assumes "generate_route_method_decl h ns r (Struct n tns d fs afs) rb sfx extra
             = Inr (MultilineList args before after compact)"
  shows "\<exists>ps. args = ([''self''] @ (case extra of None \<Rightarrow> [] | Some xs \<Rightarrow> xs)
                        @ (if rb then [''f''] else [])) @ ps
               \<and> length ps = length afs
               \<and> (\<forall>i < length afs. parameter_of h (afs ! i) (ps ! i))"
proof -
  let ?pre = "[''self''] @ (case extra of None \<Rightarrow> [] | Some xs \<Rightarrow> xs) @ (if rb then [''f''] else [])"
  from assms have "decl_fields h ?pre afs = Inr args"
    by (auto simp: generate_route_method_decl_def then_err_def Let_def
          split: sum.splits option.splits if_splits)
  from decl_fields_shape [OF this] obtain ps where
    ps: "args = ?pre @ ps" "list_all2 (parameter_of h) afs ps" by blast
  from ps(2) have "length ps = length afs" "\<forall>i < length afs. parameter_of h (afs ! i) (ps ! i)"
    by (simp_all add: list_all2_conv_all_nth)
  with ps(1) show ?thesis by blast
qed

lemma arg_construction_shape:
  "arg_construction h (Struct n tns d fs afs)
     = Inr [MultilineList (map field_name afs)
              (''arg = '' @ fmt_namespace h tns @ ''.'' @ fmt_class h n) [] True]"
  by (simp add: arg_construction_def)

lemma return_lines_no_quote: "Emit triple_quote \<notin> set (return_lines dtf t)"
  by (simp add: return_lines_def triple_quote_def)

lemma deprecation_no_quote: "Emit triple_quote \<notin> set (maybe_generate_deprecation_warning r)"
  by (simp add: maybe_generate_deprecation_warning_def Let_def split: option.splits)

text \<open>
  Claim C10. The docstring of a struct argument does not depend on \<^verbatim>\<open>all_fields\<close>:
  it reads the struct's own fields only, for the decision to skip it and for the
  parameter lines. The prototype and the code that builds the argument read
  \<^verbatim>\<open>all_fields\<close>. So a method for a route without doc text whose struct argument has
  inherited fields only has one parameter per inherited field, builds the argument
  from them, and has no docstring.
\<close>

theorem docstring_ignores_inherited_fields:
  "generate_docstring_for_func h a cur ns (Struct n tns d fs afs) res err ov extra ert footer
     = generate_docstring_for_func h a cur ns (Struct n tns d fs afs') res err ov extra ert footer
   \<and> (\<not> truthy ov \<longrightarrow>
        generate_docstring_for_func h a cur ns (Struct n tns d [] afs) res err ov extra ert footer
          = Inr [])
   \<and> (arg_data_type r = Struct n tns d [] afs \<and> \<not> truthy (doc r)
        \<and> generate_route_helper h a cur ns r dtf = Inr out \<longrightarrow>
        (\<exists>pre ps before rest.
            out = [MultilineList (pre @ ps) before '':'' True,
                   Indent (maybe_generate_deprecation_warning r
                           @ MultilineList (map field_name afs)
                               (''arg = '' @ fmt_namespace h tns @ ''.'' @ fmt_class h n) [] True
                           # rest),
                   Emit []]
          \<and> hd pre = ''self'' \<and> pre \<noteq> []
          \<and> length ps = length afs
          \<and> (\<forall>i < length afs. parameter_of h (afs ! i) (ps ! i))
          \<and> Emit triple_quote \<notin> set rest))"
proof (intro conjI impI)
  show "generate_docstring_for_func h a cur ns (Struct n tns d fs afs) res err ov extra ert footer
     = generate_docstring_for_func h a cur ns (Struct n tns d fs afs') res err ov extra ert footer"
    by (simp add: generate_docstring_for_func_def arg_fields_def param_section_def then_err_def)
next
  assume "\<not> truthy ov"
  then show "generate_docstring_for_func h a cur ns (Struct n tns d [] afs) res err ov extra ert footer
          = Inr []"
    by (simp add: docstring_absent_iff arg_fields_def)
next
  assume asm: "arg_data_type r = Struct n tns d [] afs \<and> \<not> truthy (doc r)
        \<and> generate_route_helper h a cur ns r dtf = Inr out"
  then have arg: "arg_data_type r = Struct n tns d [] afs" and nodoc: "\<not> truthy (doc r)"
    and run: "generate_route_helper h a cur ns r dtf = Inr out" by simp_all
  from route_helper_shape [OF run] arg nodoc obtain m decl extra ert footer ds where
    m: "attrs r = Some m"
    and decl: "generate_route_method_decl h ns r (Struct n tns d [] afs) (m ''style'' = Some ''upload'')
               (if dtf then ''_to_file'' else []) (if dtf then Some [''download_path''] else None)
             = Inr decl"
    and ds: "generate_docstring_for_func h a cur ns (Struct n tns d [] afs) (result_data_type r)
               (error_data_type r) None extra ert footer = Inr ds"
    and out: "out = [decl,
                   Indent (ds @ maybe_generate_deprecation_warning r
                           @ [MultilineList (map field_name afs)
                               (''arg = '' @ fmt_namespace h tns @ ''.'' @ fmt_class h n) [] True]
                           @ [MultilineList
                                [fmt_namespace h (ns_name ns) @ ''.''
                                   @ fmt_func h (route_name r) (version r),
                                 [CHR 0x27] @ ns_name ns @ [CHR 0x27],
                                 ''arg'',
                                 if m ''style'' = Some ''upload'' then ''f'' else ''None'']
                                ''r = self.request'' [] False]
                           @ return_lines dtf (result_data_type r)),
                   Emit []]"
    by (auto simp: arg_construction_shape)
  have ds0: "ds = []"
    using ds by (simp add: generate_docstring_for_func_def arg_fields_def then_err_def)
  from method_decl_shape [OF decl] obtain args where
    args: "decl = MultilineList args
               (''def '' @ fmt_underscores h (ns_name ns) @ ''_''
                  @ fmt_func h (route_name r @ (if dtf then ''_to_file'' else [])) (version r))
               '':'' True"
    by blast
  let ?pre = "[''self''] @ (case (if dtf then Some [''download_path''] else None) of
                             None \<Rightarrow> [] | Some xs \<Rightarrow> xs)
                @ (if m ''style'' = Some ''upload'' then [''f''] else [])"
  from method_decl_struct_params [OF decl [unfolded args]] obtain ps where
    ps: "args = ?pre @ ps" "length ps = length afs"
        "\<forall>i < length afs. parameter_of h (afs ! i) (ps ! i)"
    by blast
  let ?rest = "[MultilineList
                  [fmt_namespace h (ns_name ns) @ ''.'' @ fmt_func h (route_name r) (version r),
                   [CHR 0x27] @ ns_name ns @ [CHR 0x27], ''arg'',
                   if m ''style'' = Some ''upload'' then ''f'' else ''None'']
                  ''r = self.request'' [] False]
               @ return_lines dtf (result_data_type r)"
  have q: "Emit triple_quote \<notin> set ?rest"
    using return_lines_no_quote by simp
  have o: "out = [MultilineList (?pre @ ps)
                    (''def '' @ fmt_underscores h (ns_name ns) @ ''_''
                       @ fmt_func h (route_name r @ (if dtf then ''_to_file'' else [])) (version r))
                    '':'' True,
                  Indent (maybe_generate_deprecation_warning r
                           @ MultilineList (map field_name afs)
                               (''arg = '' @ fmt_namespace h tns @ ''.'' @ fmt_class h n) [] True
                           # ?rest),
                  Emit []]"
    using out ds0 args ps(1) by simp
  have p: "hd ?pre = ''self'' \<and> ?pre \<noteq> []" by simp
  show "\<exists>pre ps before rest.
            out = [MultilineList (pre @ ps) before '':'' True,
                   Indent (maybe_generate_deprecation_warning r
                           @ MultilineList (map field_name afs)
                               (''arg = '' @ fmt_namespace h tns @ ''.'' @ fmt_class h n) [] True
                           # rest),
                   Emit []]
          \<and> hd pre = ''self'' \<and> pre \<noteq> []
          \<and> length ps = length afs
          \<and> (\<forall>i < length afs. parameter_of h (afs ! i) (ps ! i))
          \<and> Emit triple_quote \<notin> set rest"
    using o p ps(2,3) q by blast
qed


lemma sample_inherited_route:
  "generate_route_helper sample_helpers sample_args files_ns files_ns inherited_route False
   = Inr [MultilineList [''self'', ''path''] ''def files_get_metadata'' '':'' True,
          Indent [MultilineList [''path''] ''arg = files.GetMetadataArg'' [] True,
                  MultilineList [''files.get_metadata'', [CHR 0x27] @ ''files'' @ [CHR 0x27],
                                 ''arg'', ''None'']
                    ''r = self.request'' [] False,
                  Emit ''return None''],
          Emit []]"
  by (simp add: generate_docstring_for_func_def then_err_def arg_fields_def
        generate_route_helper_def style_is_def inherited_route_def generate_route_method_decl_def
        sample_helpers_def files_ns_def arg_construction_def return_lines_def
        maybe_generate_deprecation_warning_def str_lower_def lower_char_def)

theorem docstring_ignores_inherited_fields_witness:
  "generate_route_helper sample_helpers sample_args files_ns files_ns inherited_route False
   = Inr [MultilineList [''self'', ''path''] ''def files_get_metadata'' '':'' True,
          Indent [MultilineList [''path''] ''arg = files.GetMetadataArg'' [] True,
                  MultilineList [''files.get_metadata'', [CHR 0x27] @ ''files'' @ [CHR 0x27],
                                 ''arg'', ''None'']
                    ''r = self.request'' [] False,
                  Emit ''return None''],
          Emit []]
   \<and> (\<exists>pre ps rest.
         [''self'', ''path''] = pre @ ps \<and> hd pre = ''self'' \<and> pre \<noteq> [] \<and> length ps = 1
       \<and> [MultilineList [''path''] ''arg = files.GetMetadataArg'' [] True,
            MultilineList [''files.get_metadata'', [CHR 0x27] @ ''files'' @ [CHR 0x27],
                           ''arg'', ''None'']
              ''r = self.request'' [] False,
            Emit ''return None'']
           = MultilineList [''path''] ''arg = files.GetMetadataArg'' [] True # rest
       \<and> Emit triple_quote \<notin> set rest)"
proof -
  have arg: "arg_data_type inherited_route = Struct ''GetMetadataArg'' ''files'' None []
               [Field ''path'' (Primitive ''String'') None False (Lit NoneLit)]"
    and nodoc: "\<not> truthy (doc inherited_route)"
    by (simp_all add: inherited_route_def)
  have dep: "maybe_generate_deprecation_warning inherited_route = []"
    by (simp add: maybe_generate_deprecation_warning_def inherited_route_def)
  from docstring_ignores_inherited_fields
         [THEN conjunct2, THEN conjunct2, rule_format,
          OF conjI [OF arg conjI [OF nodoc sample_inherited_route]]]
  obtain pre ps before rest where
    "[MultilineList [''self'', ''path''] ''def files_get_metadata'' '':'' True,
          Indent [MultilineList [''path''] ''arg = files.GetMetadataArg'' [] True,
                  MultilineList [''files.get_metadata'', [CHR 0x27] @ ''files'' @ [CHR 0x27],
                                 ''arg'', ''None'']
                    ''r = self.request'' [] False,
                  Emit ''return None''],
          Emit []]
     = [MultilineList (pre @ ps) before '':'' True,
        Indent (maybe_generate_deprecation_warning inherited_route
                @ MultilineList (map field_name [Field ''path'' (Primitive ''String'') None False (Lit NoneLit)])
                    (''arg = '' @ fmt_namespace sample_helpers ''files'' @ ''.''
                       @ fmt_class sample_helpers ''GetMetadataArg'') [] True
                # rest),
        Emit []]"
    and "hd pre = ''self''" "pre \<noteq> []"
    and "length ps = length [Field ''path'' (Primitive ''String'') None False (Lit NoneLit)]"
    and "Emit triple_quote \<notin> set rest"
    by blast
  then show ?thesis
    using sample_inherited_route dep by auto
qed

section \<open>Properties of the choice of methods\<close>












lemma method_decls_append [simp]: "method_decls (xs @ ys) = method_decls xs @ method_decls ys"
  by (induction xs rule: method_decls.induct) simp_all










section \<open>Route references and method names\<close>

lemma digit_char_props:
  assumes "d < 10"
  shows "is_digit (digit_char d)" and "digit_val (digit_char d) = d"
    and "\<not> is_space (digit_char d)" and "digit_char d \<noteq> CHR ''-''"
    and "digit_char d \<noteq> CHR ''+''" and "digit_char d \<noteq> CHR ''_''"
proof -
  from assms have "d \<in> {0, 1, 2, 3, 4, 5, 6, 7, 8, 9}" by auto
  then show "is_digit (digit_char d)" and "digit_val (digit_char d) = d"
    and "\<not> is_space (digit_char d)" and "digit_char d \<noteq> CHR ''-''"
    and "digit_char d \<noteq> CHR ''+''" and "digit_char d \<noteq> CHR ''_''"
    by (auto simp: digit_char_def is_digit_def digit_val_def is_space_def)
qed

lemma str_of_nat_nonempty: "str_of_nat n \<noteq> []"
  by (subst str_of_nat.simps) simp

lemma str_of_nat_digits: "c \<in> set (str_of_nat n) \<Longrightarrow> \<exists>d < 10. c = digit_char d"
proof (induction n rule: str_of_nat.induct)
  case (1 n)
  show ?case
  proof (cases "n < 10")
    case True
    with "1.prems" show ?thesis by (subst (asm) str_of_nat.simps) auto
  next
    case False
    with "1.prems" have "c \<in> set (str_of_nat (n div 10)) \<or> c = digit_char (n mod 10)"
      by (subst (asm) str_of_nat.simps) auto
    with "1.IH" False show ?thesis by (auto intro: exI [of _ "n mod 10"])
  qed
qed

lemma parse_digits_str_of_nat:
  "parse_digits acc prev (str_of_nat n @ rest)
     = parse_digits (acc * 10 ^ length (str_of_nat n) + n) True rest"
proof (induction n arbitrary: acc prev rest rule: str_of_nat.induct)
  case (1 n)
  show ?case
  proof (cases "n < 10")
    case True
    then have s: "str_of_nat n = [digit_char n]" by (subst str_of_nat.simps) simp
    show ?thesis using True by (simp add: s digit_char_props mult.commute)
  next
    case False
    then have s: "str_of_nat n = str_of_nat (n div 10) @ [digit_char (n mod 10)]"
      by (subst str_of_nat.simps) simp
    let ?L = "length (str_of_nat (n div 10))"
    have d: "n mod 10 < 10" by simp
    have len: "length (str_of_nat n) = Suc ?L" by (simp only: s length_append) simp
    have n: "10 * (n div 10) + n mod 10 = n" by simp
    have ar: "10 * (acc * 10 ^ ?L + n div 10) + n mod 10
             = acc * 10 ^ Suc ?L + (10 * (n div 10) + n mod 10)"
      by (simp add: algebra_simps)
    have "parse_digits acc prev (str_of_nat n @ rest)
        = parse_digits acc prev (str_of_nat (n div 10) @ (digit_char (n mod 10) # rest))"
      by (simp only: s append_assoc append_Cons append_Nil)
    also have "\<dots> = parse_digits (acc * 10 ^ ?L + n div 10) True (digit_char (n mod 10) # rest)"
      by (rule "1.IH" [OF False])
    also have "\<dots> = parse_digits (10 * (acc * 10 ^ ?L + n div 10) + n mod 10) True rest"
      by (simp only: parse_digits.simps digit_char_props [OF d] if_True)
    also have "\<dots> = parse_digits (acc * 10 ^ length (str_of_nat n) + n) True rest"
      by (simp only: ar len n)
    finally show ?thesis .
  qed
qed

lemma py_int_str_of_nat: "py_int (str_of_nat n) = Inr (int n)"
proof -
  obtain c cs where cs: "str_of_nat n = c # cs"
    using str_of_nat_nonempty [of n] by (cases "str_of_nat n") auto
  have nosp: "\<forall>x \<in> set (str_of_nat n). \<not> is_space x"
    using str_of_nat_digits digit_char_props(3) by blast
  have hd_ns: "\<not> is_space c" using nosp cs by simp
  have last_ns: "\<not> is_space (last (c # cs))" using nosp cs by (metis last_in_set list.distinct(1))
  have "dropWhile is_space (rev (c # cs)) = rev (c # cs)"
    using last_ns by (metis dropWhile_eq_self_iff hd_rev list.distinct(1) rev_is_Nil_conv)
  then have strip: "str_strip (str_of_nat n) = c # cs"
    using hd_ns cs by (simp add: str_strip_def)
  obtain d where d: "d < 10" "c = digit_char d"
    using str_of_nat_digits [of c n] cs by auto
  have sign: "c \<noteq> CHR ''-''" "c \<noteq> CHR ''+''" using d digit_char_props by auto
  have "parse_digits 0 False (str_of_nat n @ []) = parse_digits (0 * 10 ^ length (str_of_nat n) + n) True []"
    by (rule parse_digits_str_of_nat)
  then have p: "parse_digits 0 False (c # cs) = Some n" using cs by simp
  show ?thesis using strip sign p by (simp add: py_int_def)
qed

lemma str_split1_first:
  assumes "c \<notin> set s"
  shows "str_split1 c (s @ c # t) = [s, t]"
proof -
  have a: "takeWhile (\<lambda>x. x \<noteq> c) (s @ c # t) = s"
    using assms by (subst takeWhile_append2) auto
  have b: "dropWhile (\<lambda>x. x \<noteq> c) (s @ c # t) = c # t"
    using assms by (subst dropWhile_append2) auto
  show ?thesis by (simp add: str_split1_def a b)
qed

lemma docf_route_bare:
  assumes "CHR ''.'' \<notin> set name" and "CHR '':'' \<notin> set name"
  shows "docf h a cur ''route'' name
           = Inr ('':meth:`'' @ ns_name cur @ ''_'' @ fmt_func h name 1 @ ''`'')"
  using assms by (simp add: docf_def)

lemma docf_route_versioned:
  assumes "CHR ''.'' \<notin> set name" and "CHR '':'' \<notin> set name"
  shows "docf h a cur ''route'' (name @ '':'' @ str_of_nat v)
           = Inr ('':meth:`'' @ ns_name cur @ ''_'' @ fmt_func h name (int v) @ ''`'')"
proof -
  have s: "str_split1 CHR '':'' (name @ CHR '':'' # str_of_nat v) = [name, str_of_nat v]"
    using assms(2) by (rule str_split1_first)
  show ?thesis using assms(1) by (simp add: docf_def s py_int_str_of_nat)
qed


text \<open>
  Claim C2. For a route whose name has neither dot nor colon, the \<open>route\<close> tag with
  the bare name (version 1) or with the name, a colon and the version resolves to a
  method reference made of the current namespace's name as it is, an underscore, and
  \<^verbatim>\<open>fmt_func\<close> of the route name and version. The prototype's name is made of
  \<^verbatim>\<open>fmt_underscores\<close> of the namespace's name, an underscore, and the same
  \<^verbatim>\<open>fmt_func\<close>. The two names are equal exactly when \<^verbatim>\<open>fmt_underscores\<close> leaves
  the namespace's name unchanged; for a namespace name it changes they differ.
\<close>

theorem route_reference_and_declared_name:
  assumes "CHR ''.'' \<notin> set (route_name r)" and "CHR '':'' \<notin> set (route_name r)"
      and "version r = int v"
      and "val = route_name r @ '':'' @ str_of_nat v \<or> (v = 1 \<and> val = route_name r)"
      and "generate_route_method_decl h ns r t rb [] extra
             = Inr (MultilineList args (''def '' @ declared) after compact)"
  shows "docf h a ns ''route'' val
           = Inr ('':meth:`'' @ ns_name ns @ ''_'' @ fmt_func h (route_name r) (version r) @ ''`'')
       \<and> declared = fmt_underscores h (ns_name ns) @ ''_'' @ fmt_func h (route_name r) (version r)
       \<and> (ns_name ns @ ''_'' @ fmt_func h (route_name r) (version r) = declared
            \<longleftrightarrow> fmt_underscores h (ns_name ns) = ns_name ns)"
proof -
  have d: "docf h a ns ''route'' val
           = Inr ('':meth:`'' @ ns_name ns @ ''_'' @ fmt_func h (route_name r) (version r) @ ''`'')"
    using assms(4)
  proof
    assume "val = route_name r @ '':'' @ str_of_nat v"
    then show ?thesis
      using docf_route_versioned [OF assms(1,2), of h a ns v] assms(3) by simp
  next
    assume "v = 1 \<and> val = route_name r"
    then show ?thesis
      using docf_route_bare [OF assms(1,2), of h a ns] assms(3) by simp
  qed
  from method_decl_shape [OF assms(5)]
  have n: "declared = fmt_underscores h (ns_name ns) @ ''_'' @ fmt_func h (route_name r) (version r)"
    by simp
  have "ns_name ns @ ''_'' @ fmt_func h (route_name r) (version r)
          = fmt_underscores h (ns_name ns) @ ''_'' @ fmt_func h (route_name r) (version r)
        \<longleftrightarrow> ns_name ns = fmt_underscores h (ns_name ns)"
    by (rule append_same_eq)
  with d n show ?thesis by auto
qed

lemma sample_versioned_decl:
  "generate_route_method_decl sample_helpers capital_ns versioned_route Void False [] None
     = Inr (MultilineList [''self''] (''def '' @ ''files_get_metadata_v2'') '':'' True)"
  by (simp add: generate_route_method_decl_def then_err_def sample_helpers_def capital_ns_def
        versioned_route_def str_lower_def lower_char_def str_of_int_def str_of_nat.simps
        digit_char_def)

theorem route_reference_and_declared_name_witness:
  "docf sample_helpers sample_args capital_ns ''route'' ''get_metadata:2''
     = Inr '':meth:`Files_get_metadata_v2`''
   \<and> generate_route_method_decl sample_helpers capital_ns versioned_route Void False [] None
     = Inr (MultilineList [''self''] ''def files_get_metadata_v2'' '':'' True)
   \<and> ''Files_get_metadata_v2'' \<noteq> ''files_get_metadata_v2''
   \<and> fmt_underscores sample_helpers (ns_name capital_ns) \<noteq> ns_name capital_ns"
proof -
  have 1: "CHR ''.'' \<notin> set (route_name versioned_route)"
    and 2: "CHR '':'' \<notin> set (route_name versioned_route)"
    and 3: "version versioned_route = int 2"
    and 4: "''get_metadata:2'' = route_name versioned_route @ '':'' @ str_of_nat 2
            \<or> ((2::nat) = 1 \<and> ''get_metadata:2'' = route_name versioned_route)"
    by (simp_all add: versioned_route_def str_of_nat.simps digit_char_def)
  from route_reference_and_declared_name [OF 1 2 3 4 sample_versioned_decl, of sample_args]
  show ?thesis
    using sample_versioned_decl
    by (simp add: sample_helpers_def capital_ns_def versioned_route_def str_lower_def
          lower_char_def str_of_int_def str_of_nat.simps digit_char_def)
qed

end
